theory Spec2Isabelle
  imports Complex_Main "HOL-Library.Word"
begin

unbundle bit_operations_syntax

section \<open>Python primitives used by the SIYI SDK\<close>

text \<open>
  The SDK keeps every frame as a string of hexadecimal text (two characters per byte).
  The Python built-ins it relies on are modelled here: \<open>hex\<close>/\<open>format(n, 'x')\<close>,
  \<open>int(s, 16)\<close>, \<open>bytes.hex()\<close>, \<open>bytes.fromhex\<close> and string slicing.
\<close>

datatype error = ValueError | TypeError

text \<open>Python slice \<open>s[i:j]\<close> for \<open>0 \<le> i \<le> j\<close>; short strings give short slices.\<close>

definition slice :: "nat \<Rightarrow> nat \<Rightarrow> 'a list \<Rightarrow> 'a list" where
  "slice i j s = take (j - i) (drop i s)"

text \<open>Python slices \<open>s[-k:]\<close> and \<open>s[:-k]\<close> for \<open>k > 0\<close>.\<close>

definition last_n :: "nat \<Rightarrow> 'a list \<Rightarrow> 'a list" where
  "last_n k s = drop (length s - k) s"

definition but_last_n :: "nat \<Rightarrow> 'a list \<Rightarrow> 'a list" where
  "but_last_n k s = take (length s - k) s"

text \<open>One lower-case hexadecimal digit, as \<open>hex\<close>, \<open>format(n, 'x')\<close> and \<open>bytes.hex()\<close> print it.\<close>

definition hexdigit :: "nat \<Rightarrow> char" where
  "hexdigit d = ''0123456789abcdef'' ! d"

text \<open>\<open>format(n, 'x')\<close>, equally \<open>hex(n)[2:]\<close>, for a non-negative \<open>n\<close>.\<close>

fun hex_of :: "nat \<Rightarrow> string" where
  "hex_of n = (if n < 16 then [hexdigit n] else hex_of (n div 16) @ [hexdigit (n mod 16)])"

declare hex_of.simps [simp del]

text \<open>The value of one hexadecimal digit; \<open>int(s, 16)\<close> accepts both letter cases.\<close>

definition digit_val :: "char \<Rightarrow> nat option" where
  "digit_val c =
     (let k = (of_char c :: nat) in
      if 48 \<le> k \<and> k \<le> 57 then Some (k - 48)
      else if 97 \<le> k \<and> k \<le> 102 then Some (k - 87)
      else if 65 \<le> k \<and> k \<le> 70 then Some (k - 55)
      else None)"

fun int16_acc :: "nat \<Rightarrow> string \<Rightarrow> nat option" where
  "int16_acc a [] = Some a"
| "int16_acc a (c # cs) =
     (case digit_val c of None \<Rightarrow> None | Some d \<Rightarrow> int16_acc (16 * a + d) cs)"

text \<open>
  \<open>int(s, 16)\<close> and \<open>int("0x" + s, base=16)\<close> on a string of hexadecimal digits:
  the value, or \<open>Inl ValueError\<close> when \<open>s\<close> is empty or holds another character.
  Python also tolerates a sign, surrounding blanks and single underscores in some
  positions; the SDK only parses text that came out of \<open>bytes.hex()\<close> or
  \<open>format(n, 'x')\<close>, where none of these occur, and the model maps them to the error.
\<close>

definition int16 :: "string \<Rightarrow> error + nat" where
  "int16 s = (if s = [] then Inl ValueError
              else case int16_acc 0 s of None \<Rightarrow> Inl ValueError | Some n \<Rightarrow> Inr n)"

text \<open>\<open>bytes.hex()\<close>: two lower-case digits per byte.\<close>

definition byte_hex :: "8 word \<Rightarrow> string" where
  "byte_hex b = [hexdigit (unat b div 16), hexdigit (unat b mod 16)]"

definition bytes_hex :: "8 word list \<Rightarrow> string" where
  "bytes_hex bs = concat (map byte_hex bs)"

text \<open>
  \<open>bytes.fromhex(s)\<close> succeeds exactly on an even number of hexadecimal digits
  (blanks between bytes apart, which the SDK never produces).
\<close>

definition is_hex :: "string \<Rightarrow> bool" where
  "is_hex s = list_all (\<lambda>c. digit_val c \<noteq> None) s"

definition fromhex_ok :: "string \<Rightarrow> bool" where
  "fromhex_ok s = (even (length s) \<and> is_hex s)"

section \<open>utils.py\<close>

definition toHex :: "int \<Rightarrow> nat \<Rightarrow> string" where
  "toHex intval nbits =
     (let h = hex_of (nat ((intval + 2 ^ nbits) mod 2 ^ nbits)) in
      if length h = 1 \<and> nbits = 8 then ''0'' @ h
      else if length h = 1 \<and> nbits = 16 then ''000'' @ h
      else if length h = 2 \<and> nbits = 16 then ''00'' @ h
      else if length h = 3 \<and> nbits = 16 then ''0'' @ h
      else h)"

definition toInt :: "string \<Rightarrow> error + int" where
  "toInt hexval =
     (let bits = (16::nat) in
      case int16 hexval of
        Inl e \<Rightarrow> Inl e
      | Inr n \<Rightarrow>
          (let val = int n in
           if val AND 2 ^ (bits - 1) \<noteq> 0 then Inr (val - 2 ^ bits) else Inr val))"

section \<open>siyi_message.py: the frame codec\<close>

text \<open>
  The checksum \<open>crc16_str_swap\<close> lives in the module \<open>crc16_python\<close>, which is not
  part of the sources; the specification treats it as a black box from the frame text to
  a two-byte value. Every function that calls it takes it as the parameter \<open>crc\<close>, of
  type \<open>string \<Rightarrow> string option\<close>, where \<open>None\<close> is Python's \<open>None\<close>.
\<close>

type_synonym crc16 = "string \<Rightarrow> string option"

text \<open>
  Modelled from the spec: \<open>crc16_str_swap\<close> is missing from the sources. This stand-in
  (the length of the text as four hexadecimal digits) is deterministic and two bytes
  wide, as the contract \<open>checksum(bytes) -> 2 bytes\<close> asks; it only instantiates the
  parameter at concrete inputs.
\<close>

definition crc16_standin :: crc16 where
  "crc16_standin payload = Some (toHex (int (length payload)) 16)"

text \<open>The mutable attributes of a \<open>SIYIMESSAGE\<close> object.\<close>

record siyi_message =
  msg_seq :: int
  msg_cmd_id :: string
  msg_data_len :: nat
  msg_data :: string

definition new_SIYIMESSAGE :: siyi_message where
  "new_SIYIMESSAGE = \<lparr>msg_seq = 0, msg_cmd_id = ''00'', msg_data_len = 0, msg_data = ''''\<rparr>"

definition HEADER :: string where
  "HEADER = ''5566''"

definition ctr :: string where
  "ctr = ''01''"

text \<open>
  \<open>incrementSEQ\<close>. For a two-digit \<open>seq_hex\<close> the source assigns the padded text to
  \<open>seq_str\<close>, and for four digits and more it assigns to \<open>seq\<close>; neither changes
  \<open>seq_hex\<close>, and \<open>seq_str\<close> is assigned again from the two slices.
\<close>

definition incrementSEQ :: "int \<Rightarrow> siyi_message \<Rightarrow> string \<times> siyi_message" where
  "incrementSEQ val m =
     (if val > 65535 then (''0000'', m\<lparr>msg_seq := 0\<rparr>)
      else if val < 0 then (''0000'', m)
      else
        (let seq = val + 1;
             m1 = m\<lparr>msg_seq := seq\<rparr>;
             seq_hex0 = hex_of (nat seq);
             seq_hex = (if length seq_hex0 = 3 then ''0'' @ seq_hex0
                        else if length seq_hex0 = 1 then ''000'' @ seq_hex0
                        else seq_hex0);
             low_b = last_n 2 seq_hex;
             high_b = slice 0 2 seq_hex
         in (low_b @ high_b, m1)))"

definition computeDataLen :: "string \<Rightarrow> string" where
  "computeDataLen data0 =
     (let data = (if length data0 mod 2 \<noteq> 0 then ''0'' @ data0 else data0);
          L = length data div 2;
          len_hex0 = hex_of L;
          len_hex = (if length len_hex0 = 3 then ''0'' @ len_hex0
                     else if length len_hex0 = 1 then ''000'' @ len_hex0
                     else if length len_hex0 = 2 then ''00'' @ len_hex0
                     else ''0000'');
          low_b = last_n 2 len_hex;
          high_b = slice 0 2 len_hex
      in low_b @ high_b)"

text \<open>What \<open>decodeMsg\<close> returns for a good frame: data, data length, command id, sequence.\<close>

type_synonym decoded = "string \<times> nat \<times> string \<times> nat"

definition MINIMUM_DATA_LENGTH :: nat where
  "MINIMUM_DATA_LENGTH = 10 * 2"

text \<open>
  \<open>decodeMsg\<close>: \<open>Inr None\<close> is the source's \<open>return data\<close> with \<open>data = None\<close>, and
  \<open>Inl ValueError\<close> is an \<open>int(...)\<close> that raises, which the source does not catch.
\<close>

definition decodeMsg ::
  "crc16 \<Rightarrow> string \<Rightarrow> siyi_message \<Rightarrow> (error + decoded option) \<times> siyi_message" where
  "decodeMsg crc msg m =
     (if length msg < MINIMUM_DATA_LENGTH then (Inr None, m)
      else
        (let low_b = slice 6 8 msg; high_b = slice 8 10 msg in
         case int16 (high_b @ low_b) of
           Inl e \<Rightarrow> (Inl e, m)
         | Inr data_len \<Rightarrow>
             (let char_len = data_len * 2;
                  msg_crc = last_n 4 msg;
                  payload = but_last_n 4 msg;
                  expected_crc = crc payload
              in if expected_crc \<noteq> Some msg_crc then (Inr None, m)
                 else
                   (let low_b = slice 10 12 msg; high_b = slice 12 14 msg in
                    case int16 (high_b @ low_b) of
                      Inl e \<Rightarrow> (Inl e, m)
                    | Inr seq \<Rightarrow>
                        (let cmd_id = slice 14 16 msg;
                             data = (if data_len > 0 then slice 16 (16 + char_len) msg else '''')
                         in (Inr (Some (data, data_len, cmd_id, seq)),
                             m\<lparr>msg_data := data, msg_data_len := data_len,
                               msg_cmd_id := cmd_id\<rparr>))))))"

text \<open>
  \<open>encodeMsg\<close>. The source builds \<open>msg_front\<close> twice: first with the text \<open>seq\<close> that
  \<open>incrementSEQ\<close> returned, then again with the literal \<open>"0000"\<close> in its place; the
  second assignment is the one that is used.
\<close>

definition encodeMsg :: "crc16 \<Rightarrow> string \<Rightarrow> string \<Rightarrow> siyi_message \<Rightarrow> string \<times> siyi_message" where
  "encodeMsg crc data cmd_id m =
     (let (seq, m1) = incrementSEQ (msg_seq m) m;
          data_len = computeDataLen data;
          msg_front0 = HEADER @ ctr @ data_len @ seq @ cmd_id @ data;
          msg_front = HEADER @ ctr @ data_len @ ''0000'' @ cmd_id @ data
      in case crc msg_front of
           Some c \<Rightarrow> (msg_front @ c, m1)
         | None \<Rightarrow> ('''', m1))"

subsection \<open>Command identifiers\<close>

definition ABSOLUTE_ZOOM_AUTO_FOCUS :: string where "ABSOLUTE_ZOOM_AUTO_FOCUS = ''0f''"

definition AUTO_FOCUS :: string where "AUTO_FOCUS = ''04''"

definition CENTER :: string where "CENTER = ''08''"

definition FUNCTION_FEEDBACK_INFO :: string where "FUNCTION_FEEDBACK_INFO = ''0b''"

definition GIMBAL_ROTATION_SPEED :: string where "GIMBAL_ROTATION_SPEED = ''07''"

definition MANUAL_FOCUS :: string where "MANUAL_FOCUS = ''06''"

definition MANUAL_ZOOM_AUTO_FOCUS :: string where "MANUAL_ZOOM_AUTO_FOCUS = ''05''"

definition PHOTO_AND_RECORD :: string where "PHOTO_AND_RECORD = ''0c''"

definition REQUEST_GIMBAL_ATTITUDE :: string where "REQUEST_GIMBAL_ATTITUDE = ''0d''"

definition REQUEST_GIMBAL_CAMERA_FIRMWARE :: string where
  "REQUEST_GIMBAL_CAMERA_FIRMWARE = ''01''"

definition REQUEST_GIMBAL_CAMERA_HARDWARE_ID :: string where
  "REQUEST_GIMBAL_CAMERA_HARDWARE_ID = ''02''"

definition REQUEST_GIMBAL_CAMERA_PRESENT_WORKING_MODE :: string where
  "REQUEST_GIMBAL_CAMERA_PRESENT_WORKING_MODE = ''19''"

definition REQUEST_GIMBAL_CONFIGURATION_INFO :: string where
  "REQUEST_GIMBAL_CONFIGURATION_INFO = ''0a''"

definition REQUEST_MAX_ZOOM_VALUE_IN_PRESENT :: string where
  "REQUEST_MAX_ZOOM_VALUE_IN_PRESENT = ''16''"

definition REQUEST_ZOOM_VALUE_IN_PRESENT :: string where
  "REQUEST_ZOOM_VALUE_IN_PRESENT = ''18''"

definition SEND_CONTROL_ANGLE_TO_GIMBAL :: string where
  "SEND_CONTROL_ANGLE_TO_GIMBAL = ''0e''"

lemmas COMMAND_defs =
  ABSOLUTE_ZOOM_AUTO_FOCUS_def AUTO_FOCUS_def CENTER_def FUNCTION_FEEDBACK_INFO_def
  GIMBAL_ROTATION_SPEED_def MANUAL_FOCUS_def MANUAL_ZOOM_AUTO_FOCUS_def PHOTO_AND_RECORD_def
  REQUEST_GIMBAL_ATTITUDE_def REQUEST_GIMBAL_CAMERA_FIRMWARE_def
  REQUEST_GIMBAL_CAMERA_HARDWARE_ID_def REQUEST_GIMBAL_CAMERA_PRESENT_WORKING_MODE_def
  REQUEST_GIMBAL_CONFIGURATION_INFO_def REQUEST_MAX_ZOOM_VALUE_IN_PRESENT_def
  REQUEST_ZOOM_VALUE_IN_PRESENT_def SEND_CONTROL_ANGLE_TO_GIMBAL_def

subsection \<open>Message builders\<close>

text \<open>
  \<open>absoluteZoomMsg\<close>. The two tests on \<open>frac_zoom_level\<close> assign to \<open>zoom_level\<close>,
  as the source has it; \<open>frac_zoom_level\<close> itself is never changed.
\<close>

definition absoluteZoomMsg ::
  "crc16 \<Rightarrow> int \<Rightarrow> int \<Rightarrow> siyi_message \<Rightarrow> string \<times> siyi_message" where
  "absoluteZoomMsg crc zoom_level0 frac_zoom_level m =
     (let zoom_level1 = (if zoom_level0 > 30 then 30 else zoom_level0);
          zoom_level2 = (if zoom_level1 < 1 then 1 else zoom_level1);
          zoom_level3 = (if frac_zoom_level > 9 then 9 else zoom_level2);
          zoom_level = (if frac_zoom_level < 0 then 0 else zoom_level3);
          data1 = toHex zoom_level 8;
          data2 = toHex frac_zoom_level 8;
          data = data1 @ data2;
          cmd_id = ABSOLUTE_ZOOM_AUTO_FOCUS
      in encodeMsg crc data cmd_id m)"

definition gimbalAttitudeMsg :: "crc16 \<Rightarrow> siyi_message \<Rightarrow> string \<times> siyi_message" where
  "gimbalAttitudeMsg crc m = encodeMsg crc '''' REQUEST_GIMBAL_ATTITUDE m"

definition centerGimbalMsg :: "crc16 \<Rightarrow> siyi_message \<Rightarrow> string \<times> siyi_message" where
  "centerGimbalMsg crc m = encodeMsg crc ''01'' CENTER m"

definition gimbalSpeedMsg ::
  "crc16 \<Rightarrow> int \<Rightarrow> int \<Rightarrow> siyi_message \<Rightarrow> string \<times> siyi_message" where
  "gimbalSpeedMsg crc yaw_speed0 pitch_speed0 m =
     (let yaw_speed1 = (if yaw_speed0 > 100 then 100 else yaw_speed0);
          yaw_speed = (if yaw_speed1 < - 100 then - 100 else yaw_speed1);
          pitch_speed1 = (if pitch_speed0 > 100 then 100 else pitch_speed0);
          pitch_speed = (if pitch_speed1 < - 100 then - 100 else pitch_speed1);
          data1 = toHex yaw_speed 8;
          data2 = toHex pitch_speed 8;
          data = data1 @ data2;
          cmd_id = GIMBAL_ROTATION_SPEED
      in encodeMsg crc data cmd_id m)"

section \<open>siyi_message.py: the message records\<close>

text \<open>
  One record per message class, with the class attributes as initial values. The SDK
  never assigns to a class attribute: the parsers set attributes on the instances held
  by the session, and \<open>resetVars\<close> replaces the instances by fresh ones. Python floats
  are modelled as reals. \<open>AutoFocusMsg\<close>, \<open>ManualFocusMsg\<close>, \<open>GimbalSpeedMsg\<close> and
  \<open>CenterMsg\<close> have the same two attributes and share the record \<open>ack_msg\<close>.
\<close>

record FirmwareMsg =
  fw_seq :: int
  code_board_ver :: string
  gimbal_firmware_ver :: string
  zoom_firmware_ver :: string

record HardwareIDMsg =
  hw_seq :: int
  hw_id :: string

record ack_msg =
  ack_seq :: int
  ack_success :: bool

record ManualZoomMsg =
  mz_seq :: int
  mz_level :: real

record CurrentZoomValueMsg =
  cz_seq :: int
  zoom_int :: int
  zoom_float :: real

text \<open>\<open>AbsoluteZoomMsg.success\<close> starts as the integer -1 and is later assigned a \<open>bool\<close>
  (\<open>True\<close> is 1 and \<open>False\<close> is 0 in Python).\<close>

record AbsoluteZoomMsg =
  az_seq :: int
  az_success :: int

record RecordingMsg =
  rec_seq :: int
  rec_state :: int

record MountDirMsg =
  md_seq :: int
  md_dir :: int

record MotionModeMsg =
  mm_seq :: int
  mm_mode :: int

record FuncFeedbackInfoMsg =
  ff_seq :: int
  info_type :: "int option"

text \<open>
  The sequence attribute of the attitude record is an integer when
  \<open>parseRequestGimbalAttitudeMsg\<close> wrote it, and a string when
  \<open>parseSendControlAngleToGimbalMsg\<close> did, because \<open>bufferCallback\<close> passes that
  parser the command id where the others get the sequence number.
\<close>

datatype pyseq = SeqInt int | SeqStr string

record AttitdueMsg =
  att_seq :: pyseq
  att_stamp :: int
  att_yaw :: real
  att_pitch :: real
  att_roll :: real
  att_yaw_speed :: real
  att_pitch_speed :: real
  att_roll_speed :: real

record MaxZoomValueMsg =
  mxz_seq :: int
  zoom_max_int :: int
  zoom_max_float :: real

record SendControlAngleToGimbalMsg =
  sca_seq :: int
  sca_yaw :: real
  sca_pitch :: real
  sca_current_yaw :: real
  sca_current_pitch :: real
  sca_current_roll :: real

definition new_FirmwareMsg :: FirmwareMsg where
  "new_FirmwareMsg = \<lparr>fw_seq = 0, code_board_ver = '''', gimbal_firmware_ver = '''',
     zoom_firmware_ver = ''''\<rparr>"

definition new_HardwareIDMsg :: HardwareIDMsg where
  "new_HardwareIDMsg = \<lparr>hw_seq = 0, hw_id = ''''\<rparr>"

definition new_ack_msg :: ack_msg where
  "new_ack_msg = \<lparr>ack_seq = 0, ack_success = False\<rparr>"

definition new_ManualZoomMsg :: ManualZoomMsg where
  "new_ManualZoomMsg = \<lparr>mz_seq = 0, mz_level = - 1\<rparr>"

definition new_CurrentZoomValueMsg :: CurrentZoomValueMsg where
  "new_CurrentZoomValueMsg = \<lparr>cz_seq = 0, zoom_int = - 1, zoom_float = - 1\<rparr>"

definition new_AbsoluteZoomMsg :: AbsoluteZoomMsg where
  "new_AbsoluteZoomMsg = \<lparr>az_seq = 0, az_success = - 1\<rparr>"

definition new_RecordingMsg :: RecordingMsg where
  "new_RecordingMsg = \<lparr>rec_seq = 0, rec_state = - 1\<rparr>"

definition new_MountDirMsg :: MountDirMsg where
  "new_MountDirMsg = \<lparr>md_seq = 0, md_dir = - 1\<rparr>"

definition new_MotionModeMsg :: MotionModeMsg where
  "new_MotionModeMsg = \<lparr>mm_seq = 0, mm_mode = - 1\<rparr>"

definition new_FuncFeedbackInfoMsg :: FuncFeedbackInfoMsg where
  "new_FuncFeedbackInfoMsg = \<lparr>ff_seq = 0, info_type = None\<rparr>"

definition new_AttitdueMsg :: AttitdueMsg where
  "new_AttitdueMsg = \<lparr>att_seq = SeqInt 0, att_stamp = 0, att_yaw = 0, att_pitch = 0,
     att_roll = 0, att_yaw_speed = 0, att_pitch_speed = 0, att_roll_speed = 0\<rparr>"

definition new_MaxZoomValueMsg :: MaxZoomValueMsg where
  "new_MaxZoomValueMsg = \<lparr>mxz_seq = 0, zoom_max_int = 0, zoom_max_float = 0\<rparr>"

definition new_SendControlAngleToGimbalMsg :: SendControlAngleToGimbalMsg where
  "new_SendControlAngleToGimbalMsg = \<lparr>sca_seq = 0, sca_yaw = 0, sca_pitch = 0,
     sca_current_yaw = 0, sca_current_pitch = 0, sca_current_roll = 0\<rparr>"

section \<open>siyi_sdk.py: the session\<close>

text \<open>
  The mutable attributes of a \<open>SIYISDK\<close> object. The address, the port, the buffer
  size, the loop rates and the thread objects are never assigned after construction and
  are left out. \<open>sent\<close> is not an attribute: it records, in order, the frames handed
  to \<open>socket.sendto\<close>, the only trace a send leaves.
\<close>

record SIYISDK =
  out_msg :: siyi_message
  in_msg :: siyi_message
  connected :: bool
  absoluteZoom_msg :: AbsoluteZoomMsg
  att_msg :: AttitdueMsg
  center_msg :: ack_msg
  currentZoomValue_msg :: CurrentZoomValueMsg
  autoFocus_msg :: ack_msg
  gimbalSpeed_msg :: ack_msg
  fw_msg :: FirmwareMsg
  funcFeedback_msg :: FuncFeedbackInfoMsg
  hw_msg :: HardwareIDMsg
  manualFocus_msg :: ack_msg
  manualZoom_msg :: ManualZoomMsg
  maxZoomValue_msg :: MaxZoomValueMsg
  motionMode_msg :: MotionModeMsg
  mountDir_msg :: MountDirMsg
  record_msg :: RecordingMsg
  sendControlAngleToGimbal_msg :: SendControlAngleToGimbalMsg
  last_att_seq :: pyseq
  stop :: bool
  last_fw_seq :: int
  sent :: "string list"

definition new_SIYISDK :: SIYISDK where
  "new_SIYISDK = \<lparr>
     out_msg = new_SIYIMESSAGE,
     in_msg = new_SIYIMESSAGE,
     connected = False,
     absoluteZoom_msg = new_AbsoluteZoomMsg,
     att_msg = new_AttitdueMsg,
     center_msg = new_ack_msg,
     currentZoomValue_msg = new_CurrentZoomValueMsg,
     autoFocus_msg = new_ack_msg,
     gimbalSpeed_msg = new_ack_msg,
     fw_msg = new_FirmwareMsg,
     funcFeedback_msg = new_FuncFeedbackInfoMsg,
     hw_msg = new_HardwareIDMsg,
     manualFocus_msg = new_ack_msg,
     manualZoom_msg = new_ManualZoomMsg,
     maxZoomValue_msg = new_MaxZoomValueMsg,
     motionMode_msg = new_MotionModeMsg,
     mountDir_msg = new_MountDirMsg,
     record_msg = new_RecordingMsg,
     sendControlAngleToGimbal_msg = new_SendControlAngleToGimbalMsg,
     last_att_seq = SeqInt (- 1),
     stop = False,
     last_fw_seq = 0,
     sent = []\<rparr>"

definition resetVars :: "SIYISDK \<Rightarrow> SIYISDK" where
  "resetVars s = s\<lparr>
     connected := False,
     absoluteZoom_msg := new_AbsoluteZoomMsg,
     att_msg := new_AttitdueMsg,
     center_msg := new_ack_msg,
     currentZoomValue_msg := new_CurrentZoomValueMsg,
     autoFocus_msg := new_ack_msg,
     gimbalSpeed_msg := new_ack_msg,
     fw_msg := new_FirmwareMsg,
     funcFeedback_msg := new_FuncFeedbackInfoMsg,
     hw_msg := new_HardwareIDMsg,
     manualFocus_msg := new_ack_msg,
     manualZoom_msg := new_ManualZoomMsg,
     maxZoomValue_msg := new_MaxZoomValueMsg,
     motionMode_msg := new_MotionModeMsg,
     mountDir_msg := new_MountDirMsg,
     record_msg := new_RecordingMsg\<rparr>"

definition disconnect :: "SIYISDK \<Rightarrow> SIYISDK" where
  "disconnect s = resetVars (s\<lparr>stop := True\<rparr>)"

section \<open>Helper facts on the hexadecimal primitives\<close>

lemma digit_val_hexdigit: "d < 16 \<Longrightarrow> digit_val (hexdigit d) = Some d"
proof -
  assume "d < 16"
  then have "d = 0 \<or> d = 1 \<or> d = 2 \<or> d = 3 \<or> d = 4 \<or> d = 5 \<or> d = 6 \<or> d = 7
      \<or> d = 8 \<or> d = 9 \<or> d = 10 \<or> d = 11 \<or> d = 12 \<or> d = 13 \<or> d = 14 \<or> d = 15"
    by arith
  then show ?thesis
    by (elim disjE) (simp_all add: digit_val_def hexdigit_def)
qed

lemma int16_acc_append:
  "int16_acc a (xs @ ys) =
     (case int16_acc a xs of None \<Rightarrow> None | Some b \<Rightarrow> int16_acc b ys)"
  by (induction xs arbitrary: a) (auto split: option.splits)

lemma int16_acc_hex_of: "int16_acc a (hex_of n) = Some (a * 16 ^ length (hex_of n) + n)"
proof (induction n arbitrary: a rule: hex_of.induct)
  case (1 n)
  show ?case
  proof (cases "n < 16")
    case True
    then show ?thesis
      by (simp add: hex_of.simps [of n] digit_val_hexdigit)
  next
    case False
    have d: "digit_val (hexdigit (n mod 16)) = Some (n mod 16)"
      by (simp add: digit_val_hexdigit)
    have "int16_acc a (hex_of n) =
            int16_acc a (hex_of (n div 16) @ [hexdigit (n mod 16)])"
      using False by (simp add: hex_of.simps [of n])
    also have "\<dots> = Some (16 * (a * 16 ^ length (hex_of (n div 16)) + n div 16) + n mod 16)"
      using False by (simp add: int16_acc_append "1.IH" d)
    also have "\<dots> = Some (a * 16 ^ length (hex_of n) + n)"
      using False by (simp add: hex_of.simps [of n] algebra_simps)
    finally show ?thesis .
  qed
qed

lemma hex_of_nonempty: "hex_of n \<noteq> []"
  by (simp add: hex_of.simps [of n])

lemma int16_hex_of: "int16 (hex_of n) = Inr n"
  by (simp add: int16_def hex_of_nonempty int16_acc_hex_of)

lemma digit_val_zero: "digit_val CHR ''0'' = Some 0"
  by (simp add: digit_val_def)

lemma int16_zero_pad: "s \<noteq> [] \<Longrightarrow> int16 (CHR ''0'' # s) = int16 s"
  by (simp add: int16_def digit_val_zero)

text \<open>
  Values of \<open>hex_of\<close> at the numbers the concrete inputs below need; each is proved on
  its own, so that later proofs rewrite with the value and never unfold the recursion.
\<close>

lemma hex_of_1: "hex_of (Suc 0) = ''1''"
  by (simp add: hex_of.simps hexdigit_def)

lemma hex_of_9: "hex_of 9 = ''9''"
  by (simp add: hex_of.simps hexdigit_def)

lemma hex_of_12: "hex_of 12 = ''c''"
  by (simp add: hex_of.simps hexdigit_def)

lemma hex_of_18: "hex_of 18 = ''12''"
  by (simp add: hex_of.simps hexdigit_def)

lemma hex_of_65536: "hex_of 65536 = ''10000''"
  by (simp add: hex_of.simps hexdigit_def)

lemma computeDataLen_01: "computeDataLen ''01'' = ''0100''"
  by (simp add: computeDataLen_def Let_def hex_of_1 last_n_def slice_def)

section \<open>utils.py: the 16-bit round trip\<close>

lemma int16_toHex16: "int16 (toHex v 16) = Inr (nat (v mod 65536))"
proof -
  define n where "n = nat (v mod 65536)"
  have ne: "hex_of n \<noteq> []" by (rule hex_of_nonempty)
  have "int16 (toHex v 16) = int16 (hex_of n)"
    using ne by (auto simp: toHex_def Let_def n_def [symmetric] int16_zero_pad)
  then show ?thesis by (simp add: int16_hex_of n_def)
qed

lemma odd_div_32768: "n < 65536 \<Longrightarrow> odd (int n div 32768) = (32768 \<le> n)"
proof (cases "n < 32768")
  case True
  then show ?thesis by simp
next
  case False
  assume "n < 65536"
  with False have "n div 32768 = Suc ((n - 32768) div 32768)" by (simp add: le_div_geq)
  also have "\<dots> = 1" using \<open>n < 65536\<close> by simp
  finally have "int n div 32768 = 1" by (simp add: zdiv_int [symmetric] del: of_nat_div)
  then show ?thesis using False by simp
qed

lemma bit15: "n < 65536 \<Longrightarrow> (int n AND 32768 \<noteq> 0) = (32768 \<le> n)"
proof -
  assume a: "n < 65536"
  have e: "(32768::int) = 2 ^ 15" by simp
  have "(int n AND 32768 \<noteq> 0) = bit (int n) 15"
    unfolding e by (simp only: and_exp_eq_0_iff_not_bit not_not)
  also have "\<dots> = odd (int n div 2 ^ 15)" by (simp only: bit_iff_odd)
  also have "\<dots> = (32768 \<le> n)" using a odd_div_32768 [of n] by simp
  finally show ?thesis .
qed

lemma mod_65536_neg: "\<not> 0 \<le> v \<Longrightarrow> - 32768 \<le> v \<Longrightarrow> (v::int) mod 65536 = v + 65536"
proof -
  assume a: "\<not> 0 \<le> v" "- 32768 \<le> v"
  have "v mod 65536 = (v + 65536) mod 65536" by simp
  also have "\<dots> = v + 65536" by (rule mod_pos_pos_trivial) (use a in linarith)+
  finally show ?thesis .
qed

text \<open>
  Claim C10: for every integer \<open>v\<close> with \<open>-32768 \<le> v \<le> 32767\<close>, \<open>toInt(toHex(v, 16))\<close>
  equals \<open>v\<close>: the 16-bit two's-complement text that \<open>toHex\<close> produces reads back
  through \<open>toInt\<close> as the same value.
\<close>

theorem toInt_toHex_roundtrip:
  "- 32768 \<le> v \<Longrightarrow> v \<le> 32767 \<Longrightarrow> toInt (toHex v 16) = Inr v"
proof -
  assume lo: "- 32768 \<le> v" and hi: "v \<le> 32767"
  define n where "n = nat (v mod 65536)"
  have n_lt: "n < 65536" by (simp add: n_def nat_less_iff)
  have p: "int16 (toHex v 16) = Inr n" by (simp add: int16_toHex16 n_def)
  show ?thesis
  proof (cases "0 \<le> v")
    case True
    then have "int n = v" using hi by (simp add: n_def)
    moreover have "\<not> 32768 \<le> n" using True hi by (simp add: n_def)
    ultimately show ?thesis using n_lt bit15 [of n] by (simp add: toInt_def p)
  next
    case False
    then have i: "int n = v + 65536" using lo by (simp add: n_def mod_65536_neg)
    then have "32768 \<le> n" using False lo by linarith
    with i show ?thesis using n_lt bit15 [of n] by (simp add: toInt_def p)
  qed
qed

theorem toInt_toHex_roundtrip_witness:
  "- 32768 \<le> (- 300 :: int) \<and> (- 300 :: int) \<le> 32767 \<and> toInt (toHex (- 300) 16) = Inr (- 300)"
  using toInt_toHex_roundtrip [of "- 300"] by simp

section \<open>The sequence counter\<close>

text \<open>
  Claim C3: incrementing the sequence counter from 65535 should yield 0, never 65536.
  On the code the guard \<open>val > 65535\<close> lets 65535 through: \<open>incrementSEQ\<close> applied
  to 65535 stores 65536 in the counter and returns the text \<open>"0010"\<close>, the two slices of
  the five-digit \<open>"10000"\<close>; the counter only goes back to 0 on the call after that.
\<close>

theorem incrementSEQ_at_65535:
  "incrementSEQ 65535 m = (''0010'', m\<lparr>msg_seq := 65536\<rparr>)"
  by (simp add: incrementSEQ_def hex_of_65536 last_n_def slice_def Let_def)

section \<open>Range clamping in the message builders\<close>

text \<open>
  Claim C6: the encoders clamp their parameters before encoding, \<open>absoluteZoomMsg\<close>
  the integer part into 1..30 and the fractional part into 0..9. On the code, a
  fractional part above 9 overwrites the integer part with 9 and is itself encoded
  unclamped: for the request (45, 12) the payload is \<open>"090c"\<close> (9 and 12), where
  clamping would give \<open>"1e09"\<close> (30 and 9).
\<close>

theorem absoluteZoomMsg_45_12:
  "absoluteZoomMsg crc 45 12 m = encodeMsg crc ''090c'' ''0f'' m"
  by (simp add: absoluteZoomMsg_def toHex_def hex_of_9 hex_of_12 Let_def
      ABSOLUTE_ZOOM_AUTO_FOCUS_def)

section \<open>Encoding followed by decoding\<close>

lemma hex_of_length_le: "n < 16 ^ k \<Longrightarrow> 0 < k \<Longrightarrow> length (hex_of n) \<le> k"
proof (induction n arbitrary: k rule: hex_of.induct)
  case (1 n)
  show ?case
  proof (cases "n < 16")
    case True
    then show ?thesis using "1.prems" by (simp add: hex_of.simps [of n])
  next
    case False
    obtain j where k: "k = Suc j" using "1.prems" by (cases k) auto
    have j0: "0 < j"
    proof (rule ccontr)
      assume "\<not> 0 < j"
      then show False using k "1.prems" False by simp
    qed
    have "n div 16 < 16 ^ j"
      using "1.prems" k by (simp add: less_mult_imp_div_less mult.commute)
    then have "length (hex_of (n div 16)) \<le> j"
      using "1.IH" False j0 by simp
    then show ?thesis using False k by (simp add: hex_of.simps [of n])
  qed
qed

lemma computeDataLen_shape:
  assumes "even (length data)" "length data div 2 < 4096"
  shows "\<exists>a b c d. computeDataLen data = [c, d, a, b]
           \<and> int16 [a, b, c, d] = Inr (length data div 2)"
proof -
  define L where "L = length data div 2"
  define h where "h = hex_of L"
  have "L < 16 ^ 3" using assms by (simp add: L_def)
  then have le: "length h \<le> 3" unfolding h_def by (rule hex_of_length_le) simp
  have ne: "h \<noteq> []" by (simp add: h_def hex_of_nonempty)
  have v: "int16 h = Inr L" by (simp add: h_def int16_hex_of)
  have "length h \<noteq> 0" using ne by simp
  with le consider (one) "length h = 1" | (two) "length h = 2" | (three) "length h = 3"
    by arith
  then show ?thesis
  proof cases
    case one
    then obtain x where h: "h = [x]" by (cases h) auto
    have "computeDataLen data = [CHR ''0'', x, CHR ''0'', CHR ''0'']"
      using assms h by (simp add: computeDataLen_def Let_def L_def [symmetric]
          h_def [symmetric] last_n_def slice_def)
    moreover have "int16 [CHR ''0'', CHR ''0'', CHR ''0'', x] = Inr L"
      using v h by (simp add: int16_zero_pad)
    ultimately show ?thesis by (auto simp: L_def)
  next
    case two
    then obtain x y where h: "h = [x, y]"
      by (cases h; cases "tl h") auto
    have "computeDataLen data = [x, y, CHR ''0'', CHR ''0'']"
      using assms h by (simp add: computeDataLen_def Let_def L_def [symmetric]
          h_def [symmetric] last_n_def slice_def)
    moreover have "int16 [CHR ''0'', CHR ''0'', x, y] = Inr L"
      using v h by (simp add: int16_zero_pad)
    ultimately show ?thesis by (auto simp: L_def)
  next
    case three
    then obtain x y z where h: "h = [x, y, z]"
      by (cases h; cases "tl h"; cases "tl (tl h)") auto
    have "computeDataLen data = [y, z, CHR ''0'', x]"
      using assms h by (simp add: computeDataLen_def Let_def L_def [symmetric]
          h_def [symmetric] last_n_def slice_def)
    moreover have "int16 [CHR ''0'', x, y, z] = Inr L"
      using v h by (simp add: int16_zero_pad)
    ultimately show ?thesis by (auto simp: L_def)
  qed
qed

lemma int16_0000: "int16 ''0000'' = Inr 0"
  by (simp add: int16_def digit_val_def)

lemma incrementSEQ_seq:
  "0 \<le> val \<Longrightarrow> val \<le> 65535 \<Longrightarrow> msg_seq (snd (incrementSEQ val m)) = val + 1"
  by (simp add: incrementSEQ_def Let_def)

text \<open>
  Claim C1: decoding the frame that \<open>encodeMsg\<close> produced should give back the payload,
  the command id and the sequence number the counter was incremented to. On the code,
  for a payload of an even number of characters, under 4096 bytes, a two-character
  command id and a checksum of four characters, the payload and the command id do come
  back, but the decoded sequence number is always 0, while the counter of the encoding
  object has moved to its old value plus one.
\<close>

theorem decodeMsg_encodeMsg:
  assumes crc: "crc (HEADER @ ctr @ computeDataLen data @ ''0000'' @ cmd_id @ data) = Some c"
    and c4: "length c = 4"
    and ev: "even (length data)"
    and small: "length data div 2 < 4096"
    and cmd2: "length cmd_id = 2"
    and seq: "0 \<le> msg_seq m" "msg_seq m \<le> 65535"
  shows "fst (decodeMsg crc (fst (encodeMsg crc data cmd_id m)) m_in)
           = Inr (Some (data, length data div 2, cmd_id, 0))
         \<and> msg_seq (snd (encodeMsg crc data cmd_id m)) = msg_seq m + 1"
proof -
  obtain a b p q where dl: "computeDataLen data = [p, q, a, b]"
    and v: "int16 [a, b, p, q] = Inr (length data div 2)"
    using computeDataLen_shape [OF ev small] by blast
  obtain x y where cmd: "cmd_id = [x, y]"
    using cmd2 by (cases cmd_id; cases "tl cmd_id") auto
  obtain c1 c2 c3 c4 where c: "c = [c1, c2, c3, c4]"
    using c4 by (cases c; cases "tl c"; cases "tl (tl c)"; cases "tl (tl (tl c))") auto
  define front where "front = HEADER @ ctr @ computeDataLen data @ ''0000'' @ cmd_id @ data"
  have enc: "encodeMsg crc data cmd_id m = (front @ c, snd (incrementSEQ (msg_seq m) m))"
    using crc by (simp add: encodeMsg_def Let_def front_def split: prod.splits)
  have len2: "2 * (length data div 2) = length data" using ev by simp
  have emp: "length data div 2 = 0 \<longrightarrow> [] = data" using len2 by auto
  have dec: "fst (decodeMsg crc (front @ c) m_in)
           = Inr (Some (data, length data div 2, cmd_id, 0))"
    using crc v len2 emp
    by (simp add: decodeMsg_def front_def dl cmd c HEADER_def ctr_def
        MINIMUM_DATA_LENGTH_def slice_def last_n_def but_last_n_def Let_def int16_0000)
  show ?thesis using dec enc seq by (simp add: incrementSEQ_seq)
qed

theorem decodeMsg_encodeMsg_witness:
  "crc16_standin (HEADER @ ctr @ computeDataLen ''01'' @ ''0000'' @ ''08'' @ ''01'') = Some ''0012''
   \<and> length ''0012'' = 4 \<and> even (length ''01'') \<and> length ''01'' div 2 < 4096
   \<and> length ''08'' = 2 \<and> 0 \<le> msg_seq new_SIYIMESSAGE \<and> msg_seq new_SIYIMESSAGE \<le> 65535
   \<and> fst (decodeMsg crc16_standin
          (fst (encodeMsg crc16_standin ''01'' ''08'' new_SIYIMESSAGE)) new_SIYIMESSAGE)
       = Inr (Some (''01'', 1, ''08'', 0))
   \<and> msg_seq (snd (encodeMsg crc16_standin ''01'' ''08'' new_SIYIMESSAGE)) = 1"
proof -
  have c: "crc16_standin (HEADER @ ctr @ computeDataLen ''01'' @ ''0000'' @ ''08'' @ ''01'')
             = Some ''0012''"
    by (simp add: crc16_standin_def HEADER_def ctr_def computeDataLen_01 toHex_def hex_of_18)
  have h2: "length ''0012'' = 4" by simp
  have h3: "even (length ''01'')" by simp
  have h4: "length ''01'' div 2 < 4096" by simp
  have h5: "length ''08'' = 2" by simp
  have h6: "0 \<le> msg_seq new_SIYIMESSAGE" by (simp add: new_SIYIMESSAGE_def)
  have h7: "msg_seq new_SIYIMESSAGE \<le> 65535" by (simp add: new_SIYIMESSAGE_def)
  have s: "msg_seq new_SIYIMESSAGE + 1 = 1" by (simp add: new_SIYIMESSAGE_def)
  have l: "length ''01'' div 2 = 1" by simp
  note r = decodeMsg_encodeMsg [where crc = crc16_standin and data = "''01''"
      and cmd_id = "''08''" and c = "''0012''" and m = new_SIYIMESSAGE
      and m_in = new_SIYIMESSAGE, OF c h2 h3 h4 h5 h6 h7]
  from r have r1: "fst (decodeMsg crc16_standin
          (fst (encodeMsg crc16_standin ''01'' ''08'' new_SIYIMESSAGE)) new_SIYIMESSAGE)
       = Inr (Some (''01'', 1, ''08'', 0))"
    unfolding l by (rule conjunct1)
  from r have r2: "msg_seq (snd (encodeMsg crc16_standin ''01'' ''08'' new_SIYIMESSAGE)) = 1"
    unfolding s by (rule conjunct2)
  show ?thesis
    by (intro conjI c h2 h3 h4 h5 h6 h7 r1 r2)
qed

end
